theory Spec2Isabelle
  imports Complex_Main "HOL-Library.Monad_Syntax"
begin

section \<open>PennyWise dashboard: the component of frontend/src/components/Dashboard.tsx\<close>

text \<open>
  The development embeds the React component \<open>Dashboard\<close>: its three state variables, the
  asynchronous functions \<open>fetchData\<close> and \<open>generateDemoData\<close>, the mount effect with its
  cleanup, the branch structure of the render function and the arithmetic of the metric
  cards. Everything the component does beyond computing a value is explicit: a network
  request is an entry in a list of requests awaiting settlement, the settlement of a
  request is an event carrying what the network delivered, and a \<open>throw\<close> is a value.
\<close>

subsection \<open>JavaScript numbers\<close>

text \<open>
  A JavaScript number is a binary64 value: a finite one (given by the real number it
  stands for), one of the two infinities, or NaN. Zero carries no sign in the model: a
  negative zero is read as zero. (Of the expressions followed below only line 111 has a
  divisor that can be zero, \<open>total_cost + cost_saved\<close>; it is a negative zero only when
  \<open>cost_saved\<close> is one too, and the quotient is NaN with either sign.) Arithmetic on
  numbers never throws.
\<close>

datatype jsnum = Fin real | PosInf | NegInf | NaN

definition signed_inf :: "bool \<Rightarrow> jsnum" where
  "signed_inf positive = (if positive then PosInf else NegInf)"

text \<open>
  Rounding to binary64, to nearest with ties to even, as every arithmetic operator and
  every number literal applies it. \<open>binade n 0 a\<close> is the exponent \<open>e\<close> of a positive real
  \<open>a\<close> below \<open>2 ^ 1024\<close>, that is \<open>2 ^ e \<le> a < 2 ^ (e + 1)\<close>, and \<open>- 1022\<close> for the smaller ones
  (the subnormal range); \<open>n\<close> bounds the search, and 1100 is enough for every such \<open>a\<close>.
  The binary64 values of that exponent are the multiples of \<open>2 ^ (e - 52)\<close>. A real of
  magnitude \<open>2 ^ 1024 - 2 ^ 970\<close> or more, halfway between the largest finite value and
  \<open>2 ^ 1024\<close>, rounds to an infinity.
\<close>

fun binade :: "nat \<Rightarrow> int \<Rightarrow> real \<Rightarrow> int" where
  "binade 0 e a = e"
| "binade (Suc n) e a =
     (if 2 \<le> a then binade n (e + 1) (a / 2)
      else if a < 1 \<and> - 1022 < e then binade n (e - 1) (a * 2)
      else e)"

definition round_half_even :: "real \<Rightarrow> int" where
  "round_half_even m =
     (let f = \<lfloor>m\<rfloor>; d = m - of_int f
      in if d < 1 / 2 then f else if 1 / 2 < d then f + 1 else if even f then f else f + 1)"

definition round64 :: "real \<Rightarrow> jsnum" where
  "round64 x =
     (if x = 0 then Fin 0
      else if 2 ^ 1024 - 2 ^ 970 \<le> \<bar>x\<bar> then signed_inf (0 < x)
      else let q = 2 powi (binade 1100 0 \<bar>x\<bar> - 52)
           in Fin (sgn x * (of_int (round_half_even (\<bar>x\<bar> / q)) * q)))"

text \<open>
  A decimal literal, in the source or in a JSON text, is the binary64 value nearest to it.
\<close>

definition js_literal :: "real \<Rightarrow> jsnum" where
  "js_literal x = round64 x"

text \<open>
  The operators \<open>+\<close>, \<open>-\<close>, \<open>*\<close> and \<open>/\<close> on numbers: on finite operands the exact result
  rounded to binary64, and the special cases of IEEE 754 otherwise.
\<close>

fun js_neg :: "jsnum \<Rightarrow> jsnum" where
  "js_neg (Fin a) = Fin (- a)"
| "js_neg PosInf = NegInf"
| "js_neg NegInf = PosInf"
| "js_neg NaN = NaN"

fun js_add :: "jsnum \<Rightarrow> jsnum \<Rightarrow> jsnum" where
  "js_add NaN _ = NaN"
| "js_add _ NaN = NaN"
| "js_add (Fin a) (Fin b) = round64 (a + b)"
| "js_add PosInf NegInf = NaN"
| "js_add NegInf PosInf = NaN"
| "js_add PosInf _ = PosInf"
| "js_add NegInf _ = NegInf"
| "js_add (Fin a) PosInf = PosInf"
| "js_add (Fin a) NegInf = NegInf"

definition js_sub :: "jsnum \<Rightarrow> jsnum \<Rightarrow> jsnum" where
  "js_sub x y = js_add x (js_neg y)"

text \<open>The sign of a number: \<open>None\<close> for NaN and for zero.\<close>

fun js_sign :: "jsnum \<Rightarrow> bool option" where
  "js_sign NaN = None"
| "js_sign PosInf = Some True"
| "js_sign NegInf = Some False"
| "js_sign (Fin a) = (if a = 0 then None else Some (0 < a))"

fun js_mul :: "jsnum \<Rightarrow> jsnum \<Rightarrow> jsnum" where
  "js_mul NaN _ = NaN"
| "js_mul _ NaN = NaN"
| "js_mul (Fin a) (Fin b) = round64 (a * b)"
| "js_mul x y =
     (case (js_sign x, js_sign y) of
        (Some p, Some q) \<Rightarrow> signed_inf (p = q)
      | _ \<Rightarrow> NaN)"

fun js_div :: "jsnum \<Rightarrow> jsnum \<Rightarrow> jsnum" where
  "js_div NaN _ = NaN"
| "js_div _ NaN = NaN"
| "js_div (Fin a) (Fin b) =
     (if b \<noteq> 0 then round64 (a / b)
      else if a = 0 then NaN
      else signed_inf (0 < a))"
| "js_div (Fin a) _ = Fin 0"
| "js_div PosInf (Fin b) = signed_inf (0 \<le> b)"
| "js_div NegInf (Fin b) = signed_inf (b < 0)"
| "js_div _ _ = NaN"

text \<open>
  \<open>Number.prototype.toFixed(f)\<close> returns a string. The model returns the string in
  structured form: the text \<open>NaN\<close>, a signed \<open>Infinity\<close>, the decimal numeral with \<open>f\<close>
  fraction digits whose digits are those of a natural number \<open>n\<close> (the value \<open>n / 10 ^ f\<close>,
  with a minus sign in front when the number is negative), or, from \<open>10 ^ 21\<close> on, the
  text that \<open>Number::toString\<close> gives for the number. \<open>n\<close> is the integer closest to
  \<open>x * 10 ^ f\<close>, the larger one of two equally close.
\<close>

datatype numtext =
    TextNaN
  | TextInfinity bool
  | Fixed bool nat nat
  | TextToString real

definition toFixed :: "nat \<Rightarrow> jsnum \<Rightarrow> numtext" where
  "toFixed f x =
     (case x of
        NaN \<Rightarrow> TextNaN
      | PosInf \<Rightarrow> TextInfinity False
      | NegInf \<Rightarrow> TextInfinity True
      | Fin v \<Rightarrow>
          if 10 ^ 21 \<le> \<bar>v\<bar> then TextToString v
          else Fixed (v < 0) (nat \<lfloor>\<bar>v\<bar> * 10 ^ f + 1 / 2\<rfloor>) f)"

subsection \<open>JSON values\<close>

text \<open>
  \<open>response.json()\<close> resolves with whatever JSON value the body holds; the component stores
  it unchecked (the interface \<open>SummaryData\<close> exists at compile time only). An object is the
  list of its members, each key once, looked up by key.
\<close>

datatype json =
    JNull
  | JBool bool
  | JNum jsnum
  | JStr string
  | JArr "json list"
  | JObj "(string \<times> json) list"

text \<open>\<open>!v\<close> is \<open>\<not> truthy v\<close>: null, false, zero, NaN and the empty string are falsy.\<close>

fun truthy :: "json \<Rightarrow> bool" where
  "truthy JNull = False"
| "truthy (JBool b) = b"
| "truthy (JNum n) = (n \<noteq> Fin 0 \<and> n \<noteq> NaN)"
| "truthy (JStr s) = (s \<noteq> [])"
| "truthy (JArr _) = True"
| "truthy (JObj _) = True"

text \<open>
  Property access \<open>v.k\<close> on a value that is not null: the member of an object, and
  \<open>undefined\<close> (here \<open>None\<close>) when there is none or the value is no object.
\<close>

fun js_get :: "json \<Rightarrow> string \<Rightarrow> json option" where
  "js_get (JObj members) k = map_of members k"
| "js_get _ k = None"

subsection \<open>The interface SummaryData\<close>

text \<open>
  The interface of lines 9 to 31, field for field; the element types of the three arrays
  are records of their own (their fields carry a prefix, since a record field is a
  constant of the theory).
\<close>

record daily_entry =
  d_date :: string
  d_cost :: jsnum
  d_requests :: jsnum
  d_saved :: jsnum

record provider_entry =
  p_provider :: string
  p_cost :: jsnum
  p_requests :: jsnum

record user_entry =
  u_user_id :: string
  u_cost :: jsnum
  u_requests :: jsnum

record SummaryData =
  total_requests :: jsnum
  total_cost :: jsnum
  cost_saved :: jsnum
  cache_hit_rate :: jsnum
  avg_cost_per_request :: jsnum
  daily_breakdown :: "daily_entry list"
  provider_breakdown :: "provider_entry list"
  top_users :: "user_entry list"

text \<open>The JSON object that carries a summary.\<close>

definition daily_json :: "daily_entry \<Rightarrow> json" where
  "daily_json d =
     JObj [(''date'', JStr (d_date d)), (''cost'', JNum (d_cost d)),
           (''requests'', JNum (d_requests d)), (''saved'', JNum (d_saved d))]"

definition provider_json :: "provider_entry \<Rightarrow> json" where
  "provider_json p =
     JObj [(''provider'', JStr (p_provider p)), (''cost'', JNum (p_cost p)),
           (''requests'', JNum (p_requests p))]"

definition user_json :: "user_entry \<Rightarrow> json" where
  "user_json u =
     JObj [(''user_id'', JStr (u_user_id u)), (''cost'', JNum (u_cost u)),
           (''requests'', JNum (u_requests u))]"

definition summary_json :: "SummaryData \<Rightarrow> json" where
  "summary_json r =
     JObj [(''total_requests'', JNum (total_requests r)),
           (''total_cost'', JNum (total_cost r)),
           (''cost_saved'', JNum (cost_saved r)),
           (''cache_hit_rate'', JNum (cache_hit_rate r)),
           (''avg_cost_per_request'', JNum (avg_cost_per_request r)),
           (''daily_breakdown'', JArr (map daily_json (daily_breakdown r))),
           (''provider_breakdown'', JArr (map provider_json (provider_breakdown r))),
           (''top_users'', JArr (map user_json (top_users r)))]"

text \<open>
  Reading a JSON value at the interface: every declared field is there with the declared
  type (members the interface does not declare are allowed, as in a structural type).
  A value has the shape of \<open>SummaryData\<close> when the reading succeeds.
\<close>

fun as_number :: "json option \<Rightarrow> jsnum option" where
  "as_number (Some (JNum n)) = Some n"
| "as_number _ = None"

fun as_string :: "json option \<Rightarrow> string option" where
  "as_string (Some (JStr s)) = Some s"
| "as_string _ = None"

fun as_array :: "(json \<Rightarrow> 'a option) \<Rightarrow> json option \<Rightarrow> 'a list option" where
  "as_array f (Some (JArr vs)) = those (map f vs)"
| "as_array f _ = None"

definition as_daily :: "json \<Rightarrow> daily_entry option" where
  "as_daily j = do {
     a \<leftarrow> as_string (js_get j ''date'');
     b \<leftarrow> as_number (js_get j ''cost'');
     c \<leftarrow> as_number (js_get j ''requests'');
     d \<leftarrow> as_number (js_get j ''saved'');
     Some \<lparr>d_date = a, d_cost = b, d_requests = c, d_saved = d\<rparr> }"

definition as_provider :: "json \<Rightarrow> provider_entry option" where
  "as_provider j = do {
     a \<leftarrow> as_string (js_get j ''provider'');
     b \<leftarrow> as_number (js_get j ''cost'');
     c \<leftarrow> as_number (js_get j ''requests'');
     Some \<lparr>p_provider = a, p_cost = b, p_requests = c\<rparr> }"

definition as_user :: "json \<Rightarrow> user_entry option" where
  "as_user j = do {
     a \<leftarrow> as_string (js_get j ''user_id'');
     b \<leftarrow> as_number (js_get j ''cost'');
     c \<leftarrow> as_number (js_get j ''requests'');
     Some \<lparr>u_user_id = a, u_cost = b, u_requests = c\<rparr> }"

definition as_summary :: "json \<Rightarrow> SummaryData option" where
  "as_summary j = do {
     a \<leftarrow> as_number (js_get j ''total_requests'');
     b \<leftarrow> as_number (js_get j ''total_cost'');
     c \<leftarrow> as_number (js_get j ''cost_saved'');
     d \<leftarrow> as_number (js_get j ''cache_hit_rate'');
     e \<leftarrow> as_number (js_get j ''avg_cost_per_request'');
     f \<leftarrow> as_array as_daily (js_get j ''daily_breakdown'');
     g \<leftarrow> as_array as_provider (js_get j ''provider_breakdown'');
     h \<leftarrow> as_array as_user (js_get j ''top_users'');
     Some \<lparr>total_requests = a, total_cost = b, cost_saved = c, cache_hit_rate = d,
           avg_cost_per_request = e, daily_breakdown = f, provider_breakdown = g,
           top_users = h\<rparr> }"

definition has_summary_shape :: "json \<Rightarrow> bool" where
  "has_summary_shape j = (as_summary j \<noteq> None)"

subsection \<open>The metric cards\<close>

text \<open>
  The expressions of the render function on a summary, in the order of the source:
  line 111 (\<open>savingsRate\<close>), lines 169 and 367 (its text), line 182 (requests per day and
  their text), line 373 (annual projection), line 385 (net savings) and line 388 (the
  return on investment), each of the last three with its text. The monthly fee is the
  literal 99 of lines 379, 385 and 388.
\<close>

definition savingsRate :: "SummaryData \<Rightarrow> jsnum" where
  "savingsRate r = js_mul (js_div (cost_saved r) (js_add (total_cost r) (cost_saved r))) (Fin 100)"

definition savingsRate_text :: "SummaryData \<Rightarrow> numtext" where
  "savingsRate_text r = toFixed 1 (savingsRate r)"

definition requests_per_day :: "SummaryData \<Rightarrow> jsnum" where
  "requests_per_day r = js_div (total_requests r) (Fin 30)"

definition requests_per_day_text :: "SummaryData \<Rightarrow> numtext" where
  "requests_per_day_text r = toFixed 0 (requests_per_day r)"

definition annual_projection :: "SummaryData \<Rightarrow> jsnum" where
  "annual_projection r = js_mul (cost_saved r) (Fin 12)"

definition annual_projection_text :: "SummaryData \<Rightarrow> numtext" where
  "annual_projection_text r = toFixed 0 (annual_projection r)"

definition net_savings :: "SummaryData \<Rightarrow> jsnum" where
  "net_savings r = js_sub (js_mul (cost_saved r) (Fin 12)) (js_mul (Fin 99) (Fin 12))"

definition net_savings_text :: "SummaryData \<Rightarrow> numtext" where
  "net_savings_text r = toFixed 0 (net_savings r)"

definition roi :: "SummaryData \<Rightarrow> jsnum" where
  "roi r =
     js_div (js_sub (js_mul (cost_saved r) (Fin 12)) (js_mul (Fin 99) (Fin 12)))
            (js_mul (Fin 99) (Fin 12))"

definition roi_text :: "SummaryData \<Rightarrow> numtext" where
  "roi_text r = toFixed 0 (roi r)"

text \<open>
  The derived metrics as the specification words them, with the operators of the same
  numbers; \<open>fee\<close> is the monthly fee.
\<close>

definition spec_savings_rate_pct :: "SummaryData \<Rightarrow> jsnum" where
  "spec_savings_rate_pct r =
     js_mul (js_div (cost_saved r) (js_add (total_cost r) (cost_saved r))) (Fin 100)"

definition spec_requests_per_day_avg :: "SummaryData \<Rightarrow> jsnum" where
  "spec_requests_per_day_avg r = js_div (total_requests r) (Fin 30)"

definition spec_annual_projection :: "SummaryData \<Rightarrow> jsnum" where
  "spec_annual_projection r = js_mul (cost_saved r) (Fin 12)"

definition spec_net_annual_savings :: "jsnum \<Rightarrow> SummaryData \<Rightarrow> jsnum" where
  "spec_net_annual_savings fee r = js_sub (spec_annual_projection r) (js_mul fee (Fin 12))"

definition spec_roi_multiple :: "jsnum \<Rightarrow> SummaryData \<Rightarrow> jsnum" where
  "spec_roi_multiple fee r = js_div (spec_net_annual_savings fee r) (js_mul fee (Fin 12))"

subsection \<open>The component state\<close>

text \<open>
  \<open>data\<close>, \<open>loading\<close> and \<open>error\<close> are the three \<open>useState\<close> variables of lines 34 to 36,
  holding the value last passed to \<open>setData\<close>, \<open>setLoading\<close> and \<open>setError\<close> (\<open>JNull\<close> and
  \<open>None\<close> are \<open>null\<close>). The other fields are the surroundings the component acts on:
  whether it is mounted, whether the interval of line 64 is armed, the requests to
  \<open>/v1/summary\<close> and to \<open>/v1/demo-data\<close> that have been issued and not yet settled (each
  with the number it was issued under, in the order of issue), and how many requests have
  been issued so far.
\<close>

record dashboard =
  data :: json
  loading :: bool
  error :: "string option"
  mounted :: bool
  polling :: bool
  fetches :: "nat list"
  seeds :: "nat list"
  issued :: nat

definition setData :: "json \<Rightarrow> dashboard \<Rightarrow> dashboard" where
  "setData v s = s\<lparr>data := v\<rparr>"

definition setLoading :: "bool \<Rightarrow> dashboard \<Rightarrow> dashboard" where
  "setLoading v s = s\<lparr>loading := v\<rparr>"

definition setError :: "string option \<Rightarrow> dashboard \<Rightarrow> dashboard" where
  "setError v s = s\<lparr>error := v\<rparr>"

subsection \<open>What the network delivers\<close>

text \<open>
  A thrown value is an \<open>Error\<close> object with its message, or something else. The promise
  of \<open>fetch\<close> rejects with a thrown value (a transport failure) or resolves with a
  response: its \<open>ok\<close> flag and its body, which \<open>response.json()\<close> either fails to read or
  parses into a JSON value.
\<close>

datatype thrown = ErrorObj string | NonError

datatype body = NotJson thrown | Json json

datatype fetch_result = Rejected thrown | Response bool body

subsection \<open>fetchData (lines 38 to 51)\<close>

text \<open>
  Up to the first \<open>await\<close>: \<open>setLoading(true)\<close>, and the request is issued.
\<close>

definition fetchData_begin :: "dashboard \<Rightarrow> dashboard" where
  "fetchData_begin s =
     (setLoading True s)\<lparr>fetches := fetches s @ [issued s], issued := Suc (issued s)\<rparr>"

text \<open>
  Lines 41 to 43: what the \<open>try\<close> block has in hand after its two \<open>await\<close>s, or the value
  thrown on the way (\<open>Inl\<close>): the rejection of \<open>fetch\<close>, the \<open>Error\<close> of line 42 when
  \<open>response.ok\<close> is false, the rejection of \<open>response.json()\<close>.
\<close>

fun fetchData_response :: "fetch_result \<Rightarrow> thrown + json" where
  "fetchData_response (Rejected t) = Inl t"
| "fetchData_response (Response ok b) =
     (if \<not> ok then Inl (ErrorObj ''Failed to fetch data'')
      else case b of NotJson t \<Rightarrow> Inl t | Json j \<Rightarrow> Inr j)"

text \<open>Line 47: the message the \<open>catch\<close> block stores.\<close>

fun catch_message :: "thrown \<Rightarrow> string" where
  "catch_message (ErrorObj m) = m"
| "catch_message NonError = ''Failed to load data''"

text \<open>
  The rest of \<open>fetchData\<close>, run when the request settles: lines 44 and 45 on success, line
  47 on a thrown value, and line 49 (\<open>finally\<close>) after either.
\<close>

definition fetchData_settled :: "fetch_result \<Rightarrow> dashboard \<Rightarrow> dashboard" where
  "fetchData_settled res s =
     setLoading False
       (case fetchData_response res of
          Inr j \<Rightarrow> setError None (setData j s)
        | Inl t \<Rightarrow> setError (Some (catch_message t)) s)"

subsection \<open>generateDemoData (lines 53 to 60)\<close>

text \<open>
  Line 55 issues the POST. When its promise resolves (with any response: the status is
  not looked at) line 56 calls \<open>fetchData\<close>, which catches everything it throws; when it
  rejects, line 58 stores the message and \<open>fetchData\<close> is not called.
\<close>

definition generateDemoData_begin :: "dashboard \<Rightarrow> dashboard" where
  "generateDemoData_begin s = s\<lparr>seeds := seeds s @ [issued s], issued := Suc (issued s)\<rparr>"

fun generateDemoData_settled :: "fetch_result \<Rightarrow> dashboard \<Rightarrow> dashboard" where
  "generateDemoData_settled (Rejected t) s = setError (Some ''Failed to generate demo data'') s"
| "generateDemoData_settled (Response ok b) s = fetchData_begin s"

subsection \<open>The mount effect (lines 62 to 66)\<close>

definition initial :: dashboard where
  "initial =
     \<lparr>data = JNull, loading = True, error = None, mounted = True, polling = False,
      fetches = [], seeds = [], issued = 0\<rparr>"

definition useEffect_mount :: "dashboard \<Rightarrow> dashboard" where
  "useEffect_mount s = (fetchData_begin s)\<lparr>polling := True\<rparr>"

definition useEffect_cleanup :: "dashboard \<Rightarrow> dashboard" where
  "useEffect_cleanup s = s\<lparr>polling := False, mounted := False\<rparr>"

definition mount :: dashboard where
  "mount = useEffect_mount initial"

subsection \<open>The render function (lines 68 to 108)\<close>

text \<open>
  The four returns of the render function, in the order of the source. The loading screen
  has no button, the error screen has \<open>Retry\<close>, the welcome screen has
  \<open>Generate Demo Data\<close>, the dashboard has \<open>Refresh\<close> and \<open>Generate Demo Data\<close>.
  \<open>if (error)\<close> tests the string: null and the empty string are falsy.
\<close>

datatype screen =
    LoadingScreen
  | ErrorScreen string
  | WelcomeScreen
  | DashboardScreen json

definition render :: "dashboard \<Rightarrow> screen" where
  "render s =
     (if loading s \<and> \<not> truthy (data s) then LoadingScreen
      else case error s of
        Some (c # cs) \<Rightarrow> ErrorScreen (c # cs)
      | _ \<Rightarrow>
          if \<not> truthy (data s) \<or> js_get (data s) ''total_requests'' = Some (JNum (Fin 0))
          then WelcomeScreen
          else DashboardScreen (data s))"

text \<open>
  What line 169 evaluates \<open>savingsRate.toFixed(1)\<close> to, for the snapshot the dashboard is
  rendered with: line 111 has computed \<open>savingsRate\<close> from the members \<open>cost_saved\<close> and
  \<open>total_cost\<close> of the snapshot, and lines 155 and 166 have called \<open>toFixed\<close> on both
  members, which throws a TypeError unless both are numbers (\<open>None\<close>: line 169 is not
  reached). The other screens have no such text (\<open>None\<close>). The lines of the render
  function after line 169 are not followed.
\<close>

fun savings_card :: "screen \<Rightarrow> numtext option" where
  "savings_card (DashboardScreen d) =
     (case (js_get d ''total_cost'', js_get d ''cost_saved'') of
        (Some (JNum t), Some (JNum c)) \<Rightarrow>
          Some (toFixed 1 (js_mul (js_div c (js_add t c)) (Fin 100)))
      | _ \<Rightarrow> None)"
| "savings_card _ = None"

subsection \<open>Executions\<close>

text \<open>
  What can happen to the component after the mount: the interval fires, the user presses
  a button of the screen in front of them, a request settles with what the network
  delivered, the component is unmounted. \<open>step\<close> is \<open>None\<close> where the event cannot
  happen: a tick needs the interval armed, a button needs the mounted component to show
  it, a request can settle only while it awaits settlement, and a mounted component is
  unmounted once. The calls of one continuation are taken as one step (no render between
  them is followed). After the unmount the fields \<open>data\<close>, \<open>loading\<close> and \<open>error\<close> go on
  recording what the continuations pass to the three setters: the component has no code
  that would hold a call back, and what React does with the call of a setter of an
  unmounted component is not part of the component.
\<close>

datatype event =
    Tick
  | ClickRefresh
  | ClickRetry
  | ClickGenerateDemo
  | FetchSettles nat fetch_result
  | SeedSettles nat fetch_result
  | Unmount

fun is_dashboard :: "screen \<Rightarrow> bool" where
  "is_dashboard (DashboardScreen d) = True"
| "is_dashboard _ = False"

fun is_error_screen :: "screen \<Rightarrow> bool" where
  "is_error_screen (ErrorScreen m) = True"
| "is_error_screen _ = False"

fun step :: "event \<Rightarrow> dashboard \<Rightarrow> dashboard option" where
  "step Tick s = (if polling s then Some (fetchData_begin s) else None)"
| "step ClickRefresh s =
     (if mounted s \<and> is_dashboard (render s) then Some (fetchData_begin s) else None)"
| "step ClickRetry s =
     (if mounted s \<and> is_error_screen (render s) then Some (fetchData_begin s) else None)"
| "step ClickGenerateDemo s =
     (if mounted s \<and> (render s = WelcomeScreen \<or> is_dashboard (render s))
      then Some (generateDemoData_begin s) else None)"
| "step (FetchSettles i res) s =
     (if i \<in> set (fetches s)
      then Some (fetchData_settled res (s\<lparr>fetches := removeAll i (fetches s)\<rparr>))
      else None)"
| "step (SeedSettles i res) s =
     (if i \<in> set (seeds s)
      then Some (generateDemoData_settled res (s\<lparr>seeds := removeAll i (seeds s)\<rparr>))
      else None)"
| "step Unmount s = (if mounted s then Some (useEffect_cleanup s) else None)"

fun run :: "event list \<Rightarrow> dashboard \<Rightarrow> dashboard option" where
  "run [] s = Some s"
| "run (e # es) s = (case step e s of None \<Rightarrow> None | Some s' \<Rightarrow> run es s')"

text \<open>
  The state that React holds for the component. The three setters are those of
  \<open>useState\<close>, and React applies their calls to the state of a mounted component only:
  the calls a continuation makes after the unmount are dropped (React 18 drops them
  without a warning), and the three variables stay as the unmount left them. This is
  the rule of the library the component runs on, not code of the component; what a
  continuation does besides calling the setters (\<open>generateDemoData\<close> calls \<open>fetchData\<close>,
  which issues a request) happens all the same. \<open>react_commit s s'\<close> is what React holds
  after a step from \<open>s\<close> whose setter calls lead to \<open>s'\<close>, and \<open>react_run\<close> is an
  execution seen through it; while the component is mounted it is \<open>run\<close>.
\<close>

definition react_commit :: "dashboard \<Rightarrow> dashboard \<Rightarrow> dashboard" where
  "react_commit s s' =
     (if mounted s then s' else s'\<lparr>data := data s, loading := loading s, error := error s\<rparr>)"

fun react_run :: "event list \<Rightarrow> dashboard \<Rightarrow> dashboard option" where
  "react_run [] s = Some s"
| "react_run (e # es) s =
     (case step e s of None \<Rightarrow> None | Some s' \<Rightarrow> react_run es (react_commit s s'))"

subsection \<open>The phase of the refresh cycle\<close>

text \<open>
  The component has no phase variable; the phase of the specification is read off the
  state: a fetch has set \<open>loading\<close> and none has cleared it since (Loading), else the last
  thing stored in \<open>error\<close> is a message (Error), else the last fetch to settle succeeded
  and cleared it (Ready). The snapshot is \<open>data\<close>; it is present when it is not null.
\<close>

datatype phase = Idle | Loading | Ready | Error

definition phase_of :: "dashboard \<Rightarrow> phase" where
  "phase_of s = (if loading s then Loading else if error s \<noteq> None then Error else Ready)"

definition snapshot_present :: "dashboard \<Rightarrow> bool" where
  "snapshot_present s = (data s \<noteq> JNull)"

text \<open>
  The body of the last response that an execution applied: the JSON value of the last
  fetch that settled with an ok response and a readable body, whichever request it
  answered; \<open>d\<close> when there is none.
\<close>

fun last_applied :: "json \<Rightarrow> event list \<Rightarrow> json" where
  "last_applied d [] = d"
| "last_applied d (FetchSettles i res # es) =
     last_applied (case fetchData_response res of Inr j \<Rightarrow> j | Inl t \<Rightarrow> d) es"
| "last_applied d (e # es) = last_applied d es"

text \<open>A fetch that settles with the JSON value null as its body.\<close>

fun null_body :: "event \<Rightarrow> bool" where
  "null_body (FetchSettles i res) = (fetchData_response res = Inr JNull)"
| "null_body _ = False"

text \<open>The events that are the settlement of a request.\<close>

fun settles :: "event \<Rightarrow> bool" where
  "settles (FetchSettles i res) = True"
| "settles (SeedSettles i res) = True"
| "settles _ = False"

text \<open>
  The invariant behind the Ready phase: a state whose snapshot is null and whose error is
  null is still loading.
\<close>

definition ready_has_data :: "dashboard \<Rightarrow> bool" where
  "ready_has_data s = (data s = JNull \<and> error s = None \<longrightarrow> loading s)"

subsection \<open>Sample summaries\<close>

text \<open>
  Scenario A of the specification (its three given fields; the others are filled in);
  a summary with requests that cost nothing and saved nothing; and a summary with no
  request at all.
\<close>

definition scenario_A :: SummaryData where
  "scenario_A =
     \<lparr>total_requests = Fin 12000, total_cost = Fin 100, cost_saved = js_literal 233.33,
      cache_hit_rate = Fin 42, avg_cost_per_request = js_literal 0.0083, daily_breakdown = [],
      provider_breakdown = [], top_users = []\<rparr>"

definition free_summary :: SummaryData where
  "free_summary =
     \<lparr>total_requests = Fin 5, total_cost = Fin 0, cost_saved = Fin 0,
      cache_hit_rate = Fin 0, avg_cost_per_request = Fin 0, daily_breakdown = [],
      provider_breakdown = [], top_users = []\<rparr>"

definition empty_summary :: SummaryData where
  "empty_summary =
     \<lparr>total_requests = Fin 0, total_cost = Fin 0, cost_saved = Fin 0,
      cache_hit_rate = Fin 0, avg_cost_per_request = Fin 0, daily_breakdown = [],
      provider_breakdown = [], top_users = []\<rparr>"

definition ok_response :: "SummaryData \<Rightarrow> fetch_result" where
  "ok_response r = Response True (Json (summary_json r))"

section \<open>Properties\<close>

subsection \<open>Basic facts\<close>

lemmas state_defs =
  setData_def setLoading_def setError_def fetchData_begin_def fetchData_settled_def
  generateDemoData_begin_def useEffect_mount_def useEffect_cleanup_def initial_def mount_def

lemmas sample_defs =
  scenario_A_def free_summary_def empty_summary_def ok_response_def summary_json_def

text \<open>A summary sent as JSON is read back unchanged, so it has the shape of the interface.\<close>

lemma those_map_Some:
  "(\<And>x. f (g x) = Some x) \<Longrightarrow> those (map (f \<circ> g) xs) = Some xs"
  by (induction xs) simp_all

lemma as_daily_json: "as_daily (daily_json d) = Some d"
  by (simp add: as_daily_def daily_json_def)

lemma as_provider_json: "as_provider (provider_json p) = Some p"
  by (simp add: as_provider_def provider_json_def)

lemma as_user_json: "as_user (user_json u) = Some u"
  by (simp add: as_user_def user_json_def)

lemma as_summary_json: "as_summary (summary_json r) = Some r"
  by (simp add: as_summary_def summary_json_def those_map_Some as_daily_json as_provider_json
      as_user_json)

lemma has_summary_shape_json: "has_summary_shape (summary_json r)"
  by (simp add: has_summary_shape_def as_summary_json)

lemma summary_json_truthy: "truthy (summary_json r)"
  by (simp add: summary_json_def)

lemma summary_json_total_requests:
  "js_get (summary_json r) ''total_requests'' = Some (JNum (total_requests r))"
  by (simp add: summary_json_def)

text \<open>What a settled fetch leaves in the three state variables.\<close>

lemma fetchData_settled_data:
  "data (fetchData_settled res s) =
     (case fetchData_response res of Inr j \<Rightarrow> j | Inl t \<Rightarrow> data s)"
  by (simp add: state_defs split: sum.splits)

lemma fetchData_settled_error:
  "error (fetchData_settled res s) =
     (case fetchData_response res of Inr j \<Rightarrow> None | Inl t \<Rightarrow> Some (catch_message t))"
  by (simp add: state_defs split: sum.splits)

lemma fetchData_settled_loading: "loading (fetchData_settled res s) = False"
  by (simp add: state_defs split: sum.splits)

lemma fetchData_settled_flags:
  "polling (fetchData_settled res s) = polling s"
  "mounted (fetchData_settled res s) = mounted s"
  by (simp_all add: state_defs split: sum.splits)

lemma generateDemoData_settled_data: "data (generateDemoData_settled res s) = data s"
  by (cases res) (simp_all add: state_defs)

lemma generateDemoData_settled_flags:
  "polling (generateDemoData_settled res s) = polling s"
  "mounted (generateDemoData_settled res s) = mounted s"
  by (cases res; simp add: state_defs)+

subsection \<open>Rounding to binary64\<close>

text \<open>
  Evaluating \<open>binade\<close> at a numeral bound (used where a number is computed, not as a
  default rule).
\<close>

lemma binade_numeral:
  "binade (numeral k) e a =
     (if 2 \<le> a then binade (pred_numeral k) (e + 1) (a / 2)
      else if a < 1 \<and> - 1022 < e then binade (pred_numeral k) (e - 1) (a * 2)
      else e)"
  by (simp add: numeral_eq_Suc)

lemmas number_defs =
  round64_def round_half_even_def js_literal_def signed_inf_def binade_numeral Let_def

text \<open>
  The search finds the exponent: started with enough steps it returns the \<open>r\<close> with
  \<open>2 powi r \<le> a < 2 powi (r + 1)\<close>, or \<open>- 1022\<close> for an \<open>a\<close> below \<open>2 powi (- 1022)\<close>; and
  1100 steps are enough for every positive \<open>a\<close> below \<open>2 ^ 1024\<close>. Hence an integer of
  magnitude below \<open>2 ^ 53\<close> is rounded to itself.
\<close>

lemma p2_up: "(a / 2) * 2 powi (e + 1) = a * 2 powi e" for a :: real
  by (simp add: power_int_add)

lemma p2_down: "(a * 2) * 2 powi (e - 1) = a * 2 powi e" for a :: real
  by (simp add: power_int_diff)

lemma p2_suc: "2 powi (e + 1) = 2 * (2::real) powi e"
  by (simp add: power_int_add)

lemma binade_spec:
  assumes "0 < a" "- 1022 \<le> e"
    and "(1 \<le> a \<and> a < 2 ^ Suc n) \<or> (a < 1 \<and> e + 1022 \<le> int n)"
  shows "- 1022 \<le> binade n e a
    \<and> a * 2 powi e < 2 powi (binade n e a + 1)
    \<and> (2 powi (binade n e a) \<le> a * 2 powi e \<or> binade n e a = - 1022)"
  using assms
proof (induction n arbitrary: e a)
  case 0
  then show ?case
    by (auto simp: p2_suc intro: mult_strict_right_mono)
next
  case (Suc n)
  show ?case
  proof (cases "2 \<le> a")
    case True
    with Suc.prems have b: "1 \<le> a / 2 \<and> a / 2 < 2 ^ Suc n"
      by auto
    have "0 < a / 2" "- 1022 \<le> e + 1"
      using Suc.prems by auto
    have st: "binade (Suc n) e a = binade n (e + 1) (a / 2)"
      using True by simp
    show ?thesis
      unfolding st using Suc.IH [OF \<open>0 < a / 2\<close> \<open>- 1022 \<le> e + 1\<close>] b
      unfolding p2_up by blast
  next
    case False
    show ?thesis
    proof (cases "a < 1 \<and> - 1022 < e")
      case True
      have "(1::real) \<le> 2 ^ n"
        by simp
      with True have "a < 2 ^ n"
        by linarith
      then have "a * 2 < 2 ^ Suc n"
        by simp
      moreover from Suc.prems(3) True have "e - 1 + 1022 \<le> int n"
        by auto
      ultimately have b:
        "(1 \<le> a * 2 \<and> a * 2 < 2 ^ Suc n) \<or> (a * 2 < 1 \<and> e - 1 + 1022 \<le> int n)"
        by linarith
      have "0 < a * 2" "- 1022 \<le> e - 1"
        using Suc.prems True by auto
      have st: "binade (Suc n) e a = binade n (e - 1) (a * 2)"
        using True False by simp
      show ?thesis
        unfolding st using Suc.IH [OF \<open>0 < a * 2\<close> \<open>- 1022 \<le> e - 1\<close> b]
        unfolding p2_down by blast
    next
      case F2: False
      with False Suc.prems have "(1 \<le> a \<and> a < 2) \<or> (a < 1 \<and> e = - 1022)"
        by auto
      moreover have st: "binade (Suc n) e a = e"
        using False F2 by auto
      ultimately show ?thesis
        unfolding st using Suc.prems(1,2)
        by (auto simp: p2_suc intro: mult_strict_right_mono)
    qed
  qed
qed

lemma binade_1100:
  assumes "0 < a" "a < 2 ^ 1024"
  shows "- 1022 \<le> binade 1100 0 a
    \<and> a < 2 powi (binade 1100 0 a + 1)
    \<and> (2 powi (binade 1100 0 a) \<le> a \<or> binade 1100 0 a = - 1022)"
proof -
  have "(1 \<le> a \<and> a < 2 ^ Suc 1100) \<or> (a < 1 \<and> 0 + 1022 \<le> int 1100)"
  proof (cases "1 \<le> a")
    case True
    have "(2::real) ^ 1024 \<le> 2 ^ Suc 1100"
      by (rule power_increasing) simp_all
    with assms(2) True show ?thesis by linarith
  next
    case False
    then show ?thesis by simp
  qed
  from binade_spec [OF assms(1) _ this] show ?thesis
    by simp
qed

lemma round_half_even_of_int: "round_half_even (of_int m) = m"
  by (simp add: round_half_even_def)

lemma powi_ge_one_exp:
  fixes a :: real
  assumes "1 \<le> a" "a < 2 powi r"
  shows "0 < r"
proof (rule ccontr)
  assume "\<not> 0 < r"
  then have "(2::real) powi r \<le> 2 powi 0"
    by (intro power_int_increasing) simp_all
  with assms show False by simp
qed

lemma powi_le_exp:
  fixes a :: real
  assumes "a < 2 powi s" "2 powi r \<le> a"
  shows "r < s"
proof (rule ccontr)
  assume "\<not> r < s"
  then have "(2::real) powi s \<le> 2 powi r"
    by (intro power_int_increasing) simp_all
  with assms show False by simp
qed

lemma powi_nonpos: "r \<le> 0 \<Longrightarrow> 2 powi r = 1 / (2::real) ^ nat (- r)"
  by (simp add: power_int_def field_simps)

lemma round64_of_int:
  assumes "\<bar>k\<bar> < 2 ^ 53"
  shows "round64 (of_int k) = Fin (of_int k)"
proof (cases "k = 0")
  case True
  then show ?thesis by (simp add: round64_def)
next
  case False
  define a :: real where "a = \<bar>of_int k\<bar>"
  define r where "r = binade 1100 0 a"
  have a1: "1 \<le> a" using False by (simp add: a_def)
  have a53: "a < 2 ^ 53" using assms unfolding a_def by simp
  then have big: "a < 2 ^ 1024" by simp
  from binade_1100 [OF _ big] a1
  have b: "a < 2 powi (r + 1)" "2 powi r \<le> a \<or> r = - 1022"
    by (simp_all add: r_def)
  from powi_ge_one_exp [OF a1 b(1)] have r0: "0 \<le> r" by simp
  with b(2) have lo: "2 powi r \<le> a" by auto
  have "a < 2 powi 53" using a53 by simp
  from powi_le_exp [OF this lo] have r52: "r - 52 \<le> 0" by simp
  define m where "m = nat (- (r - 52))"
  have q: "2 powi (r - 52) = 1 / (2::real) ^ m"
    unfolding m_def by (rule powi_nonpos [OF r52])
  have "a / (1 / 2 ^ m) = of_int (\<bar>k\<bar> * 2 ^ m)"
    by (simp add: a_def)
  then have rh: "round_half_even (a / (1 / 2 ^ m)) = \<bar>k\<bar> * 2 ^ m"
    by (simp only: round_half_even_of_int)
  have nov: "\<not> 2 ^ 1024 - 2 ^ 970 \<le> a"
    using a53 by simp
  have "round64 (of_int k) = Fin (sgn (of_int k) * (of_int (\<bar>k\<bar> * 2 ^ m) * (1 / 2 ^ m)))"
    using False nov rh q by (simp add: round64_def Let_def a_def [symmetric] r_def [symmetric])
  also have "sgn (real_of_int k) * (of_int (\<bar>k\<bar> * 2 ^ m) * (1 / 2 ^ m)) = of_int k"
    by (simp add: sgn_if)
  finally show ?thesis .
qed

lemma fee_1188: "js_mul (Fin 99) (Fin 12) = Fin 1188"
  using round64_of_int [of 1188] by simp

text \<open>The screen after a fetched summary, and the text of line 169 on it.\<close>

lemma render_after_fetch:
  "render (fetchData_settled (ok_response r) s) =
     (if total_requests r = Fin 0 then WelcomeScreen else DashboardScreen (summary_json r))"
  by (simp add: render_def ok_response_def fetchData_settled_data fetchData_settled_error
      fetchData_settled_loading summary_json_truthy summary_json_total_requests)

lemma savings_card_summary:
  "savings_card (DashboardScreen (summary_json r)) = Some (savingsRate_text r)"
  by (simp add: summary_json_def savingsRate_text_def savingsRate_def)

subsection \<open>The metric cards\<close>

text \<open>
  Claim C4. The average of requests per day is \<open>total_requests / 30\<close>: the expression of
  line 182 is the formula of the specification, with the division of the language; the
  divisor is the literal 30 whatever \<open>daily_breakdown\<close> holds; a finite count \<open>n\<close> gives
  the quotient \<open>n / 30\<close> rounded to binary64, which is the quotient itself whenever the
  count is thirty times an integer of magnitude below \<open>2 ^ 53\<close>; and 12000 requests give
  400, shown by \<open>toFixed(0)\<close> as the text 400.
\<close>

theorem requests_per_day_fixed_divisor:
  "requests_per_day r = spec_requests_per_day_avg r
   \<and> requests_per_day r = js_div (total_requests r) (Fin 30)
   \<and> requests_per_day (r\<lparr>daily_breakdown := days\<rparr>) = requests_per_day r
   \<and> (total_requests r = Fin n \<longrightarrow> requests_per_day r = round64 (n / 30))
   \<and> (total_requests r = Fin (30 * of_int k) \<and> \<bar>k\<bar> < 2 ^ 53 \<longrightarrow>
         requests_per_day r = Fin (of_int k))
   \<and> (total_requests r = Fin 12000 \<longrightarrow>
         requests_per_day r = Fin 400 \<and> requests_per_day_text r = Fixed False 400 0)"
proof (intro conjI impI)
  show "requests_per_day r = spec_requests_per_day_avg r"
    by (simp add: requests_per_day_def spec_requests_per_day_avg_def)
  show "requests_per_day r = js_div (total_requests r) (Fin 30)"
    by (simp add: requests_per_day_def)
  show "requests_per_day (r\<lparr>daily_breakdown := days\<rparr>) = requests_per_day r"
    by (simp add: requests_per_day_def)
  show "requests_per_day r = round64 (n / 30)" if "total_requests r = Fin n"
    using that by (simp add: requests_per_day_def)
  show "requests_per_day r = Fin (of_int k)"
    if "total_requests r = Fin (30 * of_int k) \<and> \<bar>k\<bar> < 2 ^ 53"
    using round64_of_int [of k] that by (simp add: requests_per_day_def)
  assume "total_requests r = Fin 12000"
  then have q: "requests_per_day r = Fin 400"
    using round64_of_int [of 400] by (simp add: requests_per_day_def)
  then show "requests_per_day r = Fin 400" .
  from q show "requests_per_day_text r = Fixed False 400 0"
    by (simp add: requests_per_day_text_def toFixed_def)
qed

theorem requests_per_day_fixed_divisor_witness:
  "requests_per_day scenario_A = Fin 400
   \<and> requests_per_day_text scenario_A = Fixed False 400 0
   \<and> requests_per_day
        (scenario_A\<lparr>daily_breakdown :=
           [\<lparr>d_date = ''2025-01-01'', d_cost = Fin 1, d_requests = Fin 12000,
             d_saved = Fin 2\<rparr>]\<rparr>) = Fin 400
   \<and> requests_per_day (scenario_A\<lparr>total_requests := Fin 1\<rparr>)
        = Fin (4803839602528529 / 2 ^ 57)
   \<and> requests_per_day_text (scenario_A\<lparr>total_requests := Fin (2 ^ 60)\<rparr>)
        = Fixed False 38430716820228232 0"
proof -
  have h: "total_requests scenario_A = Fin 12000"
    by (simp add: scenario_A_def)
  from requests_per_day_fixed_divisor
         [of scenario_A
             "[\<lparr>d_date = ''2025-01-01'', d_cost = Fin 1, d_requests = Fin 12000,
                d_saved = Fin 2\<rparr>]" 12000 400] h
  have a: "requests_per_day scenario_A = Fin 400
    \<and> requests_per_day_text scenario_A = Fixed False 400 0
    \<and> requests_per_day
        (scenario_A\<lparr>daily_breakdown :=
           [\<lparr>d_date = ''2025-01-01'', d_cost = Fin 1, d_requests = Fin 12000,
             d_saved = Fin 2\<rparr>]\<rparr>) = Fin 400"
    by metis
  have h1: "total_requests (scenario_A\<lparr>total_requests := Fin 1\<rparr>) = Fin 1"
    by simp
  from requests_per_day_fixed_divisor [of "scenario_A\<lparr>total_requests := Fin 1\<rparr>" "[]" 1 0] h1
  have "requests_per_day (scenario_A\<lparr>total_requests := Fin 1\<rparr>) = round64 (1 / 30)"
    by blast
  moreover have "round64 (1 / 30) = Fin (4803839602528529 / 2 ^ 57)"
    by (simp add: number_defs)
  ultimately have b: "requests_per_day (scenario_A\<lparr>total_requests := Fin 1\<rparr>)
      = Fin (4803839602528529 / 2 ^ 57)"
    by simp
  have h2: "total_requests (scenario_A\<lparr>total_requests := Fin (2 ^ 60)\<rparr>) = Fin (2 ^ 60)"
    by simp
  from requests_per_day_fixed_divisor
         [of "scenario_A\<lparr>total_requests := Fin (2 ^ 60)\<rparr>" "[]" "2 ^ 60" 0] h2
  have "requests_per_day (scenario_A\<lparr>total_requests := Fin (2 ^ 60)\<rparr>) = round64 (2 ^ 60 / 30)"
    by blast
  moreover have "round64 (2 ^ 60 / 30) = Fin 38430716820228232"
    by (simp add: number_defs)
  ultimately have "requests_per_day (scenario_A\<lparr>total_requests := Fin (2 ^ 60)\<rparr>)
      = Fin 38430716820228232"
    by simp
  then have c: "requests_per_day_text (scenario_A\<lparr>total_requests := Fin (2 ^ 60)\<rparr>)
      = Fixed False 38430716820228232 0"
    by (simp add: requests_per_day_text_def toFixed_def)
  from a b c show ?thesis by blast
qed

text \<open>
  Claim C5. The three values of the ROI card are consistent: the annual projection is
  \<open>cost_saved * 12\<close>, the net savings are the annual projection less twelve monthly fees,
  and the return is the net savings over twelve monthly fees. The component has one
  monthly fee, the literal 99 of the source: the expressions of lines 373, 385 and 388
  are the specification's formulas at that fee, and twelve fees are 1188, never zero.
  Every operator rounds to binary64; for a \<open>cost_saved\<close> that is an integer of magnitude
  below \<open>2 ^ 49\<close> the projection and the net savings are the exact integers.
\<close>

theorem roi_card_consistent:
  "annual_projection r = spec_annual_projection r
   \<and> net_savings r = spec_net_annual_savings (Fin 99) r
   \<and> roi r = spec_roi_multiple (Fin 99) r
   \<and> annual_projection r = js_mul (cost_saved r) (Fin 12)
   \<and> net_savings r = js_sub (annual_projection r) (js_mul (Fin 99) (Fin 12))
   \<and> roi r = js_div (net_savings r) (js_mul (Fin 99) (Fin 12))
   \<and> js_mul (Fin 99) (Fin 12) = Fin 1188
   \<and> (cost_saved r = Fin c \<longrightarrow>
         annual_projection r = round64 (c * 12)
         \<and> net_savings r = js_add (round64 (c * 12)) (Fin (- 1188))
         \<and> roi r = js_div (js_add (round64 (c * 12)) (Fin (- 1188))) (Fin 1188))
   \<and> (cost_saved r = Fin (of_int k) \<and> \<bar>k\<bar> < 2 ^ 49 \<longrightarrow>
         annual_projection r = Fin (of_int (k * 12))
         \<and> net_savings r = Fin (of_int (k * 12 - 1188))
         \<and> roi r = round64 (of_int (k * 12 - 1188) / 1188))"
proof (intro conjI impI)
  show "annual_projection r = spec_annual_projection r"
    by (simp add: annual_projection_def spec_annual_projection_def)
  show "net_savings r = spec_net_annual_savings (Fin 99) r"
    by (simp add: net_savings_def spec_net_annual_savings_def spec_annual_projection_def)
  show "roi r = spec_roi_multiple (Fin 99) r"
    by (simp add: roi_def spec_roi_multiple_def spec_net_annual_savings_def
        spec_annual_projection_def)
  show "annual_projection r = js_mul (cost_saved r) (Fin 12)"
    by (simp add: annual_projection_def)
  show "net_savings r = js_sub (annual_projection r) (js_mul (Fin 99) (Fin 12))"
    by (simp add: net_savings_def annual_projection_def)
  show "roi r = js_div (net_savings r) (js_mul (Fin 99) (Fin 12))"
    by (simp add: roi_def net_savings_def)
  show "js_mul (Fin 99) (Fin 12) = Fin 1188"
    by (rule fee_1188)
next
  assume c: "cost_saved r = Fin c"
  then show "annual_projection r = round64 (c * 12)"
    by (simp add: annual_projection_def)
  from c show "net_savings r = js_add (round64 (c * 12)) (Fin (- 1188))"
    unfolding net_savings_def js_sub_def fee_1188 by simp
  from c show "roi r = js_div (js_add (round64 (c * 12)) (Fin (- 1188))) (Fin 1188)"
    unfolding roi_def js_sub_def fee_1188 by simp
next
  assume k: "cost_saved r = Fin (of_int k) \<and> \<bar>k\<bar> < 2 ^ 49"
  then have kb: "\<bar>k\<bar> < 562949953421312"
    by simp
  then have "\<bar>k * 12\<bar> < 9007199254740992" and "\<bar>k * 12 - 1188\<bar> < 9007199254740992"
    by linarith+
  then have b1: "\<bar>k * 12\<bar> < 2 ^ 53" and b2: "\<bar>k * 12 - 1188\<bar> < 2 ^ 53"
    by simp_all
  from k have a: "annual_projection r = Fin (of_int (k * 12))"
    using round64_of_int [OF b1] by (simp add: annual_projection_def)
  then show "annual_projection r = Fin (of_int (k * 12))" .
  from k have n: "net_savings r = Fin (of_int (k * 12 - 1188))"
    using round64_of_int [OF b1] round64_of_int [OF b2]
    unfolding net_savings_def js_sub_def fee_1188 by simp
  then show "net_savings r = Fin (of_int (k * 12 - 1188))" .
  from k show "roi r = round64 (of_int (k * 12 - 1188) / 1188)"
    using round64_of_int [OF b1] round64_of_int [OF b2]
    unfolding roi_def js_sub_def fee_1188 by simp
qed

theorem roi_card_consistent_witness:
  "annual_projection_text scenario_A = Fixed False 2800 0
   \<and> net_savings_text scenario_A = Fixed False 1612 0
   \<and> roi_text scenario_A = Fixed False 1 0
   \<and> annual_projection (scenario_A\<lparr>cost_saved := Fin 1000\<rparr>) = Fin 12000
   \<and> net_savings (scenario_A\<lparr>cost_saved := Fin 1000\<rparr>) = Fin 10812
   \<and> roi_text (scenario_A\<lparr>cost_saved := Fin 1000\<rparr>) = Fixed False 9 0
   \<and> annual_projection (scenario_A\<lparr>cost_saved := Fin (2 ^ 1023)\<rparr>) = PosInf"
proof -
  have c: "cost_saved scenario_A = Fin (8209569539487171 / 2 ^ 45)"
    by (simp add: scenario_A_def number_defs)
  from roi_card_consistent [of scenario_A "8209569539487171 / 2 ^ 45" 0] c
  have "annual_projection scenario_A = round64 (8209569539487171 / 2 ^ 45 * 12)
    \<and> net_savings scenario_A = js_add (round64 (8209569539487171 / 2 ^ 45 * 12)) (Fin (- 1188))
    \<and> roi scenario_A
        = js_div (js_add (round64 (8209569539487171 / 2 ^ 45 * 12)) (Fin (- 1188))) (Fin 1188)"
    by blast
  then have a: "annual_projection_text scenario_A = Fixed False 2800 0
    \<and> net_savings_text scenario_A = Fixed False 1612 0
    \<and> roi_text scenario_A = Fixed False 1 0"
    by (simp add: annual_projection_text_def net_savings_text_def roi_text_def toFixed_def
        number_defs)
  have k: "cost_saved (scenario_A\<lparr>cost_saved := Fin 1000\<rparr>) = Fin (of_int 1000) \<and> \<bar>1000::int\<bar> < 2 ^ 49"
    by simp
  from roi_card_consistent [of "scenario_A\<lparr>cost_saved := Fin 1000\<rparr>" 0 1000] k
  have "annual_projection (scenario_A\<lparr>cost_saved := Fin 1000\<rparr>) = Fin (of_int (1000 * 12))
    \<and> net_savings (scenario_A\<lparr>cost_saved := Fin 1000\<rparr>) = Fin (of_int (1000 * 12 - 1188))
    \<and> roi (scenario_A\<lparr>cost_saved := Fin 1000\<rparr>) = round64 (of_int (1000 * 12 - 1188) / 1188)"
    by blast
  then have b: "annual_projection (scenario_A\<lparr>cost_saved := Fin 1000\<rparr>) = Fin 12000
    \<and> net_savings (scenario_A\<lparr>cost_saved := Fin 1000\<rparr>) = Fin 10812
    \<and> roi_text (scenario_A\<lparr>cost_saved := Fin 1000\<rparr>) = Fixed False 9 0"
    by (simp add: roi_text_def toFixed_def number_defs)
  have "cost_saved (scenario_A\<lparr>cost_saved := Fin (2 ^ 1023)\<rparr>) = Fin (2 ^ 1023)"
    by simp
  with roi_card_consistent [of "scenario_A\<lparr>cost_saved := Fin (2 ^ 1023)\<rparr>" "2 ^ 1023" 0]
  have "annual_projection (scenario_A\<lparr>cost_saved := Fin (2 ^ 1023)\<rparr>) = round64 (2 ^ 1023 * 12)"
    by blast
  then have d: "annual_projection (scenario_A\<lparr>cost_saved := Fin (2 ^ 1023)\<rparr>) = PosInf"
    by (simp add: number_defs)
  from a b d show ?thesis by blast
qed

text \<open>
  Claim C3, as amended. The savings rate of line 111 is
  \<open>cost_saved / (total_cost + cost_saved) * 100\<close>, the formula of the specification with
  the operators of the language. When \<open>total_cost\<close> and \<open>cost_saved\<close> are both zero it is
  NaN, computed without a throw (the operators are total), and \<open>toFixed(1)\<close> turns NaN
  into the text \<open>NaN\<close>. After a fetched summary the component shows it as follows: with
  \<open>total_requests\<close> zero, line 93 returns the welcome screen before line 111 runs and no
  savings rate is shown; otherwise the dashboard is rendered and line 169 prints
  \<open>savingsRate.toFixed(1)\<close>, for zero costs \<open>NaN% reduction\<close>. Nothing in the component
  replaces NaN by zero.
\<close>

theorem savingsRate_formula:
  "savingsRate r = spec_savings_rate_pct r
   \<and> savingsRate r = js_mul (js_div (cost_saved r) (js_add (total_cost r) (cost_saved r))) (Fin 100)
   \<and> render (fetchData_settled (ok_response r) s) =
        (if total_requests r = Fin 0 then WelcomeScreen else DashboardScreen (summary_json r))
   \<and> savings_card (render (fetchData_settled (ok_response r) s)) =
        (if total_requests r = Fin 0 then None else Some (savingsRate_text r))
   \<and> (total_cost r = Fin 0 \<and> cost_saved r = Fin 0 \<longrightarrow>
         savingsRate r = NaN \<and> savingsRate_text r = TextNaN)"
proof (intro conjI impI)
  show "savingsRate r = spec_savings_rate_pct r"
    by (simp add: savingsRate_def spec_savings_rate_pct_def)
  show "savingsRate r
      = js_mul (js_div (cost_saved r) (js_add (total_cost r) (cost_saved r))) (Fin 100)"
    by (simp add: savingsRate_def)
  show "render (fetchData_settled (ok_response r) s) =
      (if total_requests r = Fin 0 then WelcomeScreen else DashboardScreen (summary_json r))"
    by (rule render_after_fetch)
  show "savings_card (render (fetchData_settled (ok_response r) s)) =
      (if total_requests r = Fin 0 then None else Some (savingsRate_text r))"
    unfolding render_after_fetch by (simp add: savings_card_summary del: savings_card.simps(1))
next
  assume z: "total_cost r = Fin 0 \<and> cost_saved r = Fin 0"
  then have n: "savingsRate r = NaN"
    by (simp add: savingsRate_def round64_def)
  then show "savingsRate r = NaN" .
  from n show "savingsRate_text r = TextNaN"
    by (simp add: savingsRate_text_def toFixed_def)
qed

theorem savingsRate_formula_witness:
  "savingsRate free_summary = NaN
   \<and> savings_card (render (fetchData_settled (ok_response free_summary) mount)) = Some TextNaN
   \<and> savings_card (render (fetchData_settled (ok_response empty_summary) mount)) = None
   \<and> savings_card (render (fetchData_settled (ok_response scenario_A) mount))
        = Some (Fixed False 700 1)
   \<and> savingsRate_text (scenario_A\<lparr>total_cost := Fin 39, cost_saved := Fin 41\<rparr>)
        = Fixed False 512 1
   \<and> savingsRate (scenario_A\<lparr>total_cost := Fin (2 ^ 1023), cost_saved := Fin (2 ^ 1023)\<rparr>)
        = Fin 0"
proof -
  have f: "total_cost free_summary = Fin 0 \<and> cost_saved free_summary = Fin 0"
    and f': "total_requests free_summary \<noteq> Fin 0"
    and e: "total_requests empty_summary = Fin 0"
    and a: "total_requests scenario_A \<noteq> Fin 0"
    by (simp_all add: free_summary_def empty_summary_def scenario_A_def)
  from savingsRate_formula [of free_summary mount] f f'
  have 1: "savingsRate free_summary = NaN
    \<and> savings_card (render (fetchData_settled (ok_response free_summary) mount)) = Some TextNaN"
    by metis
  from savingsRate_formula [of empty_summary mount] e
  have 2: "savings_card (render (fetchData_settled (ok_response empty_summary) mount)) = None"
    by metis
  from savingsRate_formula [of scenario_A mount] a
  have "savings_card (render (fetchData_settled (ok_response scenario_A) mount))
      = Some (savingsRate_text scenario_A)"
    by metis
  moreover have "savingsRate_text scenario_A = Fixed False 700 1"
    by (simp add: savingsRate_text_def savingsRate_def scenario_A_def toFixed_def number_defs)
  moreover have "savingsRate_text (scenario_A\<lparr>total_cost := Fin 39, cost_saved := Fin 41\<rparr>)
      = Fixed False 512 1"
    by (simp add: savingsRate_text_def savingsRate_def toFixed_def number_defs)
  moreover have
    "savingsRate (scenario_A\<lparr>total_cost := Fin (2 ^ 1023), cost_saved := Fin (2 ^ 1023)\<rparr>)
      = Fin 0"
    by (simp add: savingsRate_def number_defs)
  ultimately show ?thesis
    using 1 2 by simp
qed

text \<open>
  The claim as stated fails where it says that the sentinel is displayed as 0 percent:
  a summary of five requests that cost nothing and saved nothing is fetched, the
  dashboard is rendered, and the text line 169 prints for the savings rate is \<open>NaN\<close>,
  neither \<open>0.0\<close> nor \<open>0\<close>.
\<close>

theorem savingsRate_NaN_is_displayed:
  "total_cost free_summary = Fin 0 \<and> cost_saved free_summary = Fin 0
   \<and> map_option render (run [FetchSettles 0 (ok_response free_summary)] mount)
        = Some (DashboardScreen (summary_json free_summary))
   \<and> savings_card (DashboardScreen (summary_json free_summary)) = Some TextNaN
   \<and> savings_card (DashboardScreen (summary_json free_summary)) \<noteq> Some (Fixed False 0 1)
   \<and> savings_card (DashboardScreen (summary_json free_summary)) \<noteq> Some (Fixed False 0 0)"
proof -
  have "map_option render (run [FetchSettles 0 (ok_response free_summary)] mount)
          = Some (DashboardScreen (summary_json free_summary))"
    by (simp add: state_defs sample_defs render_def)
  moreover have "savings_card (DashboardScreen (summary_json free_summary)) = Some TextNaN"
    by (simp add: free_summary_def summary_json_def toFixed_def round64_def)
  ultimately show ?thesis
    by (simp add: free_summary_def)
qed

subsection \<open>One fetch\<close>

text \<open>
  Claim C7, as amended. A fetch fails, leaving a message in \<open>error\<close> and the phase Error,
  exactly when the transport fails, \<open>response.ok\<close> is false, or \<open>response.json()\<close> cannot
  read the body; a failed fetch leaves \<open>data\<close> as it was. A body that parses as JSON is
  stored as the snapshot whatever its shape, with \<open>error\<close> cleared and the phase Ready:
  the component never compares the value with the interface \<open>SummaryData\<close>.
\<close>

theorem fetch_fails_iff:
  "(error (fetchData_settled res s) \<noteq> None) =
     ((\<exists>t. res = Rejected t) \<or> (\<exists>b. res = Response False b)
      \<or> (\<exists>t. res = Response True (NotJson t)))
   \<and> (phase_of (fetchData_settled res s) = Error) = (error (fetchData_settled res s) \<noteq> None)
   \<and> (error (fetchData_settled res s) \<noteq> None \<longrightarrow> data (fetchData_settled res s) = data s)
   \<and> (\<forall>j. res = Response True (Json j) \<longrightarrow>
         data (fetchData_settled res s) = j \<and> error (fetchData_settled res s) = None
         \<and> phase_of (fetchData_settled res s) = Ready)"
proof (cases res)
  case (Rejected t)
  then show ?thesis
    by (simp add: fetchData_settled_data fetchData_settled_error fetchData_settled_loading
        phase_of_def)
next
  case (Response ok b)
  then show ?thesis
    by (cases b; cases ok)
       (simp_all add: fetchData_settled_data fetchData_settled_error fetchData_settled_loading
          phase_of_def)
qed

theorem fetch_fails_iff_witness:
  "error (fetchData_settled (Response True (NotJson (ErrorObj ''Unexpected token''))) mount)
     \<noteq> None
   \<and> phase_of (fetchData_settled (Response True (NotJson (ErrorObj ''Unexpected token''))) mount)
     = Error
   \<and> data (fetchData_settled (Response True (NotJson (ErrorObj ''Unexpected token''))) mount)
     = data mount
   \<and> data (fetchData_settled (ok_response scenario_A) mount) = summary_json scenario_A
   \<and> phase_of (fetchData_settled (ok_response scenario_A) mount) = Ready"
proof -
  from fetch_fails_iff [of "Response True (NotJson (ErrorObj ''Unexpected token''))" mount]
  have "error (fetchData_settled (Response True (NotJson (ErrorObj ''Unexpected token''))) mount)
          \<noteq> None
    \<and> phase_of (fetchData_settled (Response True (NotJson (ErrorObj ''Unexpected token''))) mount)
          = Error
    \<and> data (fetchData_settled (Response True (NotJson (ErrorObj ''Unexpected token''))) mount)
          = data mount"
    by blast
  moreover from fetch_fails_iff [of "ok_response scenario_A" mount]
  have "data (fetchData_settled (ok_response scenario_A) mount) = summary_json scenario_A
    \<and> phase_of (fetchData_settled (ok_response scenario_A) mount) = Ready"
    by (simp add: ok_response_def)
  ultimately show ?thesis by blast
qed

text \<open>
  The claim as stated fails on a body whose shape is not that of the interface: the empty
  object \<open>{}\<close>, answered with status 200 to the first fetch, becomes the snapshot, the
  error stays null and the phase is Ready.
\<close>

theorem misshaped_body_is_applied:
  "\<not> has_summary_shape (JObj [])
   \<and> map_option data (run [FetchSettles 0 (Response True (Json (JObj [])))] mount)
        = Some (JObj [])
   \<and> map_option error (run [FetchSettles 0 (Response True (Json (JObj [])))] mount)
        = Some None
   \<and> map_option phase_of (run [FetchSettles 0 (Response True (Json (JObj [])))] mount)
        = Some Ready"
  by (simp add: has_summary_shape_def as_summary_def state_defs phase_of_def)

text \<open>
  Claim C2, as amended. A fetch that fails leaves the snapshot as it was, stores the
  message of the failure and puts the phase to Error; this holds in every state, so also
  in one that holds a snapshot of an earlier success. In the state the failed fetch
  leaves, the snapshot is not shown beside an error: with a message that is not empty
  the render function returns the error screen (the message and the Retry button) at
  line 76, before it looks at \<open>data\<close>; with the empty string as message it renders the
  state as if there were no error, with no sign of the failure.
\<close>

theorem failed_fetch_keeps_snapshot:
  assumes "fetchData_response res = Inl t"
  shows "data (fetchData_settled res s) = data s
    \<and> error (fetchData_settled res s) = Some (catch_message t)
    \<and> phase_of (fetchData_settled res s) = Error
    \<and> (catch_message t \<noteq> [] \<longrightarrow>
          render (fetchData_settled res s) = ErrorScreen (catch_message t))
    \<and> (catch_message t = [] \<longrightarrow>
          render (fetchData_settled res s) = render (s\<lparr>loading := False, error := None\<rparr>))"
  using assms
  by (auto simp: fetchData_settled_data fetchData_settled_error fetchData_settled_loading
      phase_of_def render_def neq_Nil_conv)

theorem failed_fetch_keeps_snapshot_witness:
  "fetchData_response (Response False (Json JNull)) = Inl (ErrorObj ''Failed to fetch data'')
   \<and> data (fetchData_settled (Response False (Json JNull))
             (setData (summary_json scenario_A) mount)) = summary_json scenario_A
   \<and> phase_of (fetchData_settled (Response False (Json JNull))
             (setData (summary_json scenario_A) mount)) = Error
   \<and> render (fetchData_settled (Response False (Json JNull))
             (setData (summary_json scenario_A) mount)) = ErrorScreen ''Failed to fetch data''"
proof -
  have h: "fetchData_response (Response False (Json JNull))
             = Inl (ErrorObj ''Failed to fetch data'')"
    by simp
  from failed_fetch_keeps_snapshot [OF h, of "setData (summary_json scenario_A) mount"] h
  show ?thesis by (simp add: setData_def)
qed

text \<open>
  The claim as stated fails where it says that the stale data stays visible: after a
  successful first fetch the dashboard shows the summary; the next poll is answered with
  a status that is not ok; the snapshot is still in the state, and the screen is the
  error screen, which shows none of it.
\<close>

theorem error_screen_hides_stale_data:
  "map_option render (run [FetchSettles 0 (ok_response scenario_A), Tick] mount)
     = Some (DashboardScreen (summary_json scenario_A))
   \<and> map_option render (run [FetchSettles 0 (ok_response scenario_A), Tick,
         FetchSettles 1 (Response False (Json JNull))] mount)
     = Some (ErrorScreen ''Failed to fetch data'')
   \<and> map_option data (run [FetchSettles 0 (ok_response scenario_A), Tick,
         FetchSettles 1 (Response False (Json JNull))] mount)
     = Some (summary_json scenario_A)"
  by (simp add: state_defs sample_defs phase_of_def render_def)

text \<open>
  Claim C10, as amended. A summary whose \<open>total_requests\<close> is zero, fetched with success,
  is not presented as a dashboard: the state the fetch leaves renders the welcome screen
  (the one with the Generate Demo Data button), the same screen as that state with a null
  snapshot. Wherever such a summary is the snapshot, the screen is neither the dashboard
  nor the loading screen. In a state that is not loading it is the screen of the null
  snapshot; in a state that is loading it is not: the null snapshot shows the loading
  screen of line 68, the empty summary does not.
\<close>

theorem empty_summary_renders_welcome:
  assumes "total_requests r = Fin 0"
  shows "render (fetchData_settled (ok_response r) s) = WelcomeScreen
    \<and> render ((fetchData_settled (ok_response r) s)\<lparr>data := JNull\<rparr>) = WelcomeScreen
    \<and> (data s' = summary_json r \<longrightarrow>
          \<not> is_dashboard (render s') \<and> render s' \<noteq> LoadingScreen)
    \<and> (data s' = summary_json r \<and> \<not> loading s' \<longrightarrow>
          render s' = render (s'\<lparr>data := JNull\<rparr>))
    \<and> (data s' = summary_json r \<and> loading s' \<longrightarrow>
          render (s'\<lparr>data := JNull\<rparr>) = LoadingScreen
          \<and> render s' \<noteq> render (s'\<lparr>data := JNull\<rparr>))"
  using assms
  by (auto simp: render_def ok_response_def fetchData_settled_data fetchData_settled_error
      fetchData_settled_loading summary_json_truthy summary_json_total_requests
      split: option.splits list.splits)

theorem empty_summary_renders_welcome_witness:
  "total_requests empty_summary = Fin 0
   \<and> render (fetchData_settled (ok_response empty_summary) mount) = WelcomeScreen
   \<and> render ((fetchData_settled (ok_response empty_summary) mount)\<lparr>data := JNull\<rparr>)
        = WelcomeScreen
   \<and> render (fetchData_begin (fetchData_settled (ok_response empty_summary) mount))
        = WelcomeScreen
   \<and> render ((fetchData_begin (fetchData_settled (ok_response empty_summary) mount))
        \<lparr>data := JNull\<rparr>) = LoadingScreen"
proof -
  have h: "total_requests empty_summary = Fin 0"
    by (simp add: empty_summary_def)
  let ?s = "fetchData_begin (fetchData_settled (ok_response empty_summary) mount)"
  have d: "data ?s = summary_json empty_summary" and l: "loading ?s"
    by (simp_all add: state_defs ok_response_def)
  have w: "render ?s = WelcomeScreen"
    by (simp add: state_defs sample_defs render_def)
  from empty_summary_renders_welcome [OF h, of mount ?s] d l w h
  show ?thesis by simp
qed

text \<open>
  The claim as stated fails where it says that an empty snapshot cannot be told from no
  snapshot: after the fetch of a summary without requests the interval issues the next
  fetch; the state is loading, has no error and renders the welcome screen, while the
  state at the mount, loading and without error as well but with no snapshot, renders
  the loading screen.
\<close>

theorem empty_snapshot_differs_while_loading:
  "map_option data (run [FetchSettles 0 (ok_response empty_summary), Tick] mount)
     = Some (summary_json empty_summary)
   \<and> map_option loading (run [FetchSettles 0 (ok_response empty_summary), Tick] mount)
     = Some True
   \<and> map_option error (run [FetchSettles 0 (ok_response empty_summary), Tick] mount)
     = Some None
   \<and> map_option render (run [FetchSettles 0 (ok_response empty_summary), Tick] mount)
     = Some WelcomeScreen
   \<and> data mount = JNull \<and> loading mount = True \<and> error mount = None
   \<and> render mount = LoadingScreen"
  by (simp add: state_defs sample_defs render_def)

subsection \<open>The demo seed\<close>

text \<open>
  Claim C6, as amended. \<open>generateDemoData\<close> issues the POST and nothing else. When the
  POST is answered with an ok response, \<open>fetchData\<close> is called: a fetch is issued and
  \<open>loading\<close> is set. When the POST is rejected (a transport failure), \<open>fetchData\<close> is not
  called: no request is issued, the snapshot and \<open>loading\<close> are untouched, and \<open>error\<close>
  becomes the text \<open>Failed to generate demo data\<close>, which is neither of the two fixed
  messages of a failed fetch; the phase is then Error unless a fetch is still loading.
\<close>

theorem demo_seed_settlement:
  "seeds (generateDemoData_begin s) = seeds s @ [issued s]
   \<and> fetches (generateDemoData_begin s) = fetches s
   \<and> generateDemoData_settled (Response True b) s = fetchData_begin s
   \<and> fetches (fetchData_begin s) = fetches s @ [issued s]
   \<and> loading (fetchData_begin s)
   \<and> fetches (generateDemoData_settled (Rejected t) s) = fetches s
   \<and> issued (generateDemoData_settled (Rejected t) s) = issued s
   \<and> data (generateDemoData_settled (Rejected t) s) = data s
   \<and> loading (generateDemoData_settled (Rejected t) s) = loading s
   \<and> error (generateDemoData_settled (Rejected t) s) = Some ''Failed to generate demo data''
   \<and> phase_of (generateDemoData_settled (Rejected t) s) = (if loading s then Loading else Error)
   \<and> ''Failed to generate demo data'' \<noteq> catch_message (ErrorObj ''Failed to fetch data'')
   \<and> ''Failed to generate demo data'' \<noteq> catch_message NonError"
  by (simp add: state_defs phase_of_def)

theorem demo_seed_settlement_witness:
  "fetches (generateDemoData_settled (Response True (Json JNull)) (initial\<lparr>loading := False\<rparr>))
     = [0]
   \<and> fetches (generateDemoData_settled (Rejected NonError) (initial\<lparr>loading := False\<rparr>)) = []
   \<and> error (generateDemoData_settled (Rejected NonError) (initial\<lparr>loading := False\<rparr>))
       = Some ''Failed to generate demo data''
   \<and> phase_of (generateDemoData_settled (Rejected NonError) (initial\<lparr>loading := False\<rparr>))
       = Error"
  using demo_seed_settlement [of "initial\<lparr>loading := False\<rparr>" "Json JNull" NonError]
  by (simp add: initial_def)

text \<open>
  The claim as stated fails where it says that the refresh follows a failed seed call:
  the first fetch brings a summary without requests, the welcome screen offers the
  button, the user presses it, the POST is rejected; afterwards no request awaits
  settlement and the count of issued requests is still two (the first fetch and the
  POST): no fetch was started.
\<close>

theorem no_refetch_after_rejected_seed:
  "map_option render (run [FetchSettles 0 (ok_response empty_summary)] mount)
     = Some WelcomeScreen
   \<and> map_option seeds (run [FetchSettles 0 (ok_response empty_summary), ClickGenerateDemo] mount)
     = Some [1]
   \<and> map_option fetches (run [FetchSettles 0 (ok_response empty_summary), ClickGenerateDemo,
         SeedSettles 1 (Rejected (ErrorObj ''Failed to fetch''))] mount) = Some []
   \<and> map_option issued (run [FetchSettles 0 (ok_response empty_summary), ClickGenerateDemo,
         SeedSettles 1 (Rejected (ErrorObj ''Failed to fetch''))] mount) = Some 2
   \<and> map_option error (run [FetchSettles 0 (ok_response empty_summary), ClickGenerateDemo,
         SeedSettles 1 (Rejected (ErrorObj ''Failed to fetch''))] mount)
     = Some (Some ''Failed to generate demo data'')"
  by (simp add: state_defs sample_defs render_def)

subsection \<open>Executions\<close>

text \<open>The snapshot after one event, and after an execution.\<close>

lemma step_data:
  "step e s = Some s' \<Longrightarrow> data s' = last_applied (data s) [e]"
  by (cases e)
     (auto simp: fetchData_settled_data generateDemoData_settled_data fetchData_begin_def
        generateDemoData_begin_def useEffect_cleanup_def setLoading_def
        split: if_splits sum.splits)

lemma last_applied_step:
  "last_applied d (e # es) = last_applied (last_applied d [e]) es"
  by (cases e) simp_all

lemma run_data: "run evs s0 = Some s \<Longrightarrow> data s = last_applied (data s0) evs"
proof (induction evs arbitrary: s0)
  case Nil
  then show ?case by simp
next
  case (Cons e es)
  then obtain s1 where s1: "step e s0 = Some s1" and rest: "run es s1 = Some s"
    by (auto split: option.splits)
  have "data s = last_applied (data s1) es"
    using Cons.IH [OF rest] .
  also have "data s1 = last_applied (data s0) [e]"
    using step_data [OF s1] .
  finally show ?case
    using last_applied_step [of "data s0" e es] by simp
qed

text \<open>
  Claim C1, as amended. Every fetch that settles with a readable ok response is applied
  when it settles, whatever else awaits settlement and whenever it was issued: after any
  execution the snapshot is the body of the response that settled last, not of the
  request that was issued last. Requests carry no number in the component, and a newer
  request cancels nothing.
\<close>

theorem last_settled_response_is_retained:
  assumes "run evs s0 = Some s"
  shows "data s = last_applied (data s0) evs
    \<and> (\<forall>i j. i \<in> set (fetches s) \<longrightarrow>
          (\<exists>s'. step (FetchSettles i (Response True (Json j))) s = Some s' \<and> data s' = j))"
  using run_data [OF assms] by (simp add: fetchData_settled_data)

theorem last_settled_response_is_retained_witness:
  "\<exists>s. run [FetchSettles 0 (ok_response scenario_A), Tick, ClickRefresh,
            FetchSettles 2 (ok_response free_summary),
            FetchSettles 1 (ok_response scenario_A)] mount = Some s
       \<and> data s = summary_json scenario_A"
proof -
  let ?evs = "[FetchSettles 0 (ok_response scenario_A), Tick, ClickRefresh,
               FetchSettles 2 (ok_response free_summary),
               FetchSettles 1 (ok_response scenario_A)]"
  have "run ?evs mount \<noteq> None"
    by (simp add: state_defs sample_defs render_def)
  then obtain s where r: "run ?evs mount = Some s"
    by blast
  have "last_applied (data mount) ?evs = summary_json scenario_A"
    by (simp add: ok_response_def)
  with last_settled_response_is_retained [OF r] r show ?thesis
    by simp
qed

text \<open>
  The claim as stated fails: the dashboard shows a first summary; the interval issues
  request 1 and the phase is Loading; the user presses Refresh, which issues request 2
  while request 1 awaits settlement; request 2 settles first and its body becomes the
  snapshot; request 1 settles later and its body replaces that of request 2. Both
  responses were applied, and the snapshot kept is that of the older request.
\<close>

theorem older_response_overwrites_newer:
  "map_option phase_of (run [FetchSettles 0 (ok_response scenario_A), Tick] mount)
     = Some Loading
   \<and> map_option fetches (run [FetchSettles 0 (ok_response scenario_A), Tick, ClickRefresh] mount)
     = Some [1, 2]
   \<and> map_option data (run [FetchSettles 0 (ok_response scenario_A), Tick, ClickRefresh,
         FetchSettles 2 (ok_response free_summary)] mount)
     = Some (summary_json free_summary)
   \<and> map_option data (run [FetchSettles 0 (ok_response scenario_A), Tick, ClickRefresh,
         FetchSettles 2 (ok_response free_summary),
         FetchSettles 1 (ok_response scenario_A)] mount)
     = Some (summary_json scenario_A)
   \<and> summary_json scenario_A \<noteq> summary_json free_summary"
  by (simp add: state_defs sample_defs phase_of_def render_def)

text \<open>
  After the unmount only settlements can happen, the interval stays cleared, and the
  state React holds stays as the unmount left it.
\<close>

lemma step_torn_down:
  "step e u = Some u' \<Longrightarrow> \<not> polling u \<Longrightarrow> \<not> mounted u \<Longrightarrow>
     settles e \<and> \<not> polling u' \<and> \<not> mounted u'"
  by (cases e)
     (auto simp: fetchData_settled_flags generateDemoData_settled_flags split: if_splits)

lemma react_commit_torn_down:
  "\<not> mounted u \<Longrightarrow>
     data (react_commit u u') = data u \<and> loading (react_commit u u') = loading u
     \<and> error (react_commit u u') = error u
     \<and> polling (react_commit u u') = polling u' \<and> mounted (react_commit u u') = mounted u'"
  by (simp add: react_commit_def)

lemma react_run_torn_down:
  "react_run evs u = Some u' \<Longrightarrow> \<not> polling u \<Longrightarrow> \<not> mounted u \<Longrightarrow>
     list_all settles evs \<and> \<not> polling u' \<and> \<not> mounted u'
     \<and> data u' = data u \<and> loading u' = loading u \<and> error u' = error u"
proof (induction evs arbitrary: u)
  case Nil
  then show ?case by simp
next
  case (Cons e es)
  then obtain u1 where u1: "step e u = Some u1"
    and rest: "react_run es (react_commit u u1) = Some u'"
    by (auto split: option.splits)
  from step_torn_down [OF u1 Cons.prems(2,3)]
  have e: "settles e" and f: "\<not> polling u1" "\<not> mounted u1"
    by simp_all
  from react_commit_torn_down [OF Cons.prems(3), of u1] f
  have c: "\<not> polling (react_commit u u1)" "\<not> mounted (react_commit u u1)"
    and k: "data (react_commit u u1) = data u" "loading (react_commit u u1) = loading u"
      "error (react_commit u u1) = error u"
    by simp_all
  from Cons.IH [OF rest c] e k show ?case
    by simp
qed

text \<open>While the component is mounted the state React holds is the one of \<open>run\<close>.\<close>

lemma step_mounted_before: "step e s = Some s' \<Longrightarrow> mounted s' \<Longrightarrow> mounted s"
  by (cases e)
     (auto simp: fetchData_settled_flags generateDemoData_settled_flags fetchData_begin_def
        generateDemoData_begin_def useEffect_cleanup_def setLoading_def split: if_splits)

lemma run_mounted_before: "run evs s = Some s' \<Longrightarrow> mounted s' \<Longrightarrow> mounted s"
proof (induction evs arbitrary: s)
  case Nil
  then show ?case by simp
next
  case (Cons e es)
  then obtain s1 where s1: "step e s = Some s1" and rest: "run es s1 = Some s'"
    by (auto split: option.splits)
  from step_mounted_before [OF s1 Cons.IH [OF rest Cons.prems(2)]] show ?case .
qed

lemma react_run_mounted: "run evs s = Some s' \<Longrightarrow> mounted s' \<Longrightarrow> react_run evs s = Some s'"
proof (induction evs arbitrary: s)
  case Nil
  then show ?case by simp
next
  case (Cons e es)
  then obtain s1 where s1: "step e s = Some s1" and rest: "run es s1 = Some s'"
    by (auto split: option.splits)
  have "mounted s"
    using run_mounted_before [OF Cons.prems] .
  then have "react_commit s s1 = s1"
    by (simp add: react_commit_def)
  with s1 Cons.IH [OF rest Cons.prems(2)] show ?case
    by simp
qed

text \<open>
  Claim C8. The cleanup of the mount effect clears the interval: after the unmount no
  tick and no button press can happen, in the state the unmount leaves and in every
  state that follows. Whatever settles afterwards, the state React holds for the
  component (snapshot, \<open>loading\<close>, \<open>error\<close>, and so the phase) is the one of the unmount: a
  fetch that awaited settlement at the unmount does settle, and its result changes
  nothing. The interval is cleared by the component (line 65); the result of the late
  fetch is dropped by React, to which the continuation of \<open>fetchData\<close> hands its setter
  calls as before, the component having no guard of its own.
\<close>

theorem no_transition_after_unmount:
  assumes "step Unmount s = Some u"
  shows "\<not> polling u \<and> \<not> mounted u
    \<and> data u = data s \<and> loading u = loading s \<and> error u = error s \<and> fetches u = fetches s
    \<and> step Tick u = None \<and> step ClickRefresh u = None \<and> step ClickRetry u = None
    \<and> step ClickGenerateDemo u = None
    \<and> (\<forall>evs u'. react_run evs u = Some u' \<longrightarrow>
          list_all settles evs \<and> \<not> polling u'
          \<and> data u' = data u \<and> loading u' = loading u \<and> error u' = error u
          \<and> phase_of u' = phase_of u)
    \<and> (\<forall>i res. i \<in> set (fetches u) \<longrightarrow>
          (\<exists>u'. react_run [FetchSettles i res] u = Some u'
             \<and> data u' = data u \<and> loading u' = loading u \<and> error u' = error u
             \<and> i \<notin> set (fetches u')))"
proof -
  from assms have u: "u = useEffect_cleanup s"
    by (auto split: if_splits)
  have flags: "\<not> polling u" "\<not> mounted u"
    by (simp_all add: u useEffect_cleanup_def)
  have later: "list_all settles evs \<and> \<not> polling u'
      \<and> data u' = data u \<and> loading u' = loading u \<and> error u' = error u
      \<and> phase_of u' = phase_of u" if "react_run evs u = Some u'" for evs u'
    using react_run_torn_down [OF that flags] by (simp add: phase_of_def)
  have late: "\<exists>u'. react_run [FetchSettles i res] u = Some u'
      \<and> data u' = data u \<and> loading u' = loading u \<and> error u' = error u
      \<and> i \<notin> set (fetches u')" if "i \<in> set (fetches u)" for i res
    using that flags by (simp add: react_commit_def state_defs split: sum.splits)
  from flags later late show ?thesis
    by (simp add: u useEffect_cleanup_def)
qed

theorem no_transition_after_unmount_witness:
  "step Unmount mount = Some (useEffect_cleanup mount)
   \<and> \<not> polling (useEffect_cleanup mount)
   \<and> step Tick (useEffect_cleanup mount) = None
   \<and> (\<exists>u'. react_run [FetchSettles 0 (ok_response scenario_A)] (useEffect_cleanup mount) = Some u'
          \<and> data u' = JNull \<and> loading u' = True \<and> error u' = None \<and> fetches u' = [])"
proof -
  have h: "step Unmount mount = Some (useEffect_cleanup mount)"
    by (simp add: state_defs)
  have i: "0 \<in> set (fetches (useEffect_cleanup mount))"
    by (simp add: state_defs)
  from no_transition_after_unmount [OF h] i
  have "\<exists>u'. react_run [FetchSettles 0 (ok_response scenario_A)] (useEffect_cleanup mount) = Some u'
          \<and> data u' = data (useEffect_cleanup mount)
          \<and> loading u' = loading (useEffect_cleanup mount)
          \<and> error u' = error (useEffect_cleanup mount)
          \<and> 0 \<notin> set (fetches u')"
    by blast
  moreover from no_transition_after_unmount [OF h]
  have "\<not> polling (useEffect_cleanup mount) \<and> step Tick (useEffect_cleanup mount) = None"
    by blast
  ultimately show ?thesis
    using h by (auto simp: state_defs react_commit_def ok_response_def)
qed

text \<open>The invariant holds at the mount and survives every event but a null body.\<close>

lemma ready_has_data_seed_settled:
  "ready_has_data s \<Longrightarrow> ready_has_data (generateDemoData_settled res s)"
  by (cases res) (simp_all add: ready_has_data_def state_defs)

lemma ready_has_data_fetch_settled:
  "fetchData_response res \<noteq> Inr JNull \<Longrightarrow> ready_has_data (fetchData_settled res s)"
  by (auto simp: ready_has_data_def fetchData_settled_data fetchData_settled_error
      split: sum.splits)

lemma step_ready_has_data:
  assumes "step e s = Some s'" and "\<not> null_body e" and "ready_has_data s"
  shows "ready_has_data s'"
proof (cases e)
  case (FetchSettles i res)
  with assms(1,2) show ?thesis
    by (auto simp: ready_has_data_fetch_settled split: if_splits)
next
  case (SeedSettles i res)
  have "ready_has_data (s\<lparr>seeds := removeAll i (seeds s)\<rparr>)"
    using assms(3) by (simp add: ready_has_data_def)
  with SeedSettles assms(1) show ?thesis
    by (auto simp: ready_has_data_seed_settled split: if_splits)
qed (use assms(1,3) in \<open>auto simp: ready_has_data_def state_defs split: if_splits\<close>)

lemma run_ready_has_data:
  "run evs s0 = Some s \<Longrightarrow> \<not> list_ex null_body evs \<Longrightarrow> ready_has_data s0 \<Longrightarrow>
     ready_has_data s"
proof (induction evs arbitrary: s0)
  case Nil
  then show ?case by simp
next
  case (Cons e es)
  then obtain s1 where s1: "step e s0 = Some s1" and rest: "run es s1 = Some s"
    by (auto split: option.splits)
  from Cons.prems(2) have e: "\<not> null_body e" and es: "\<not> list_ex null_body es"
    by simp_all
  from Cons.IH [OF rest es step_ready_has_data [OF s1 e Cons.prems(3)]] show ?case .
qed

lemma ready_has_data_mount: "ready_has_data mount"
  by (simp add: ready_has_data_def state_defs)

text \<open>
  Claim C9, as amended. The component is mounted in the phase Loading with an empty
  snapshot. In every state reached from there by an execution in which no fetch was
  answered with the JSON value null, the phase Ready implies that the snapshot is
  present. Loading coexists with a present snapshot: after a first success, the tick of
  the interval puts the phase to Loading and the snapshot stays.
\<close>

theorem ready_implies_snapshot:
  "phase_of mount = Loading \<and> \<not> snapshot_present mount
   \<and> (run evs mount = Some s \<and> \<not> list_ex null_body evs \<and> phase_of s = Ready
        \<longrightarrow> snapshot_present s)
   \<and> map_option phase_of (run [FetchSettles 0 (ok_response scenario_A), Tick] mount)
        = Some Loading
   \<and> map_option snapshot_present (run [FetchSettles 0 (ok_response scenario_A), Tick] mount)
        = Some True"
proof -
  have "snapshot_present s"
    if "run evs mount = Some s" "\<not> list_ex null_body evs" "phase_of s = Ready"
    using run_ready_has_data [OF that(1,2) ready_has_data_mount] that(3)
    by (auto simp: ready_has_data_def phase_of_def snapshot_present_def split: if_splits)
  moreover have "phase_of mount = Loading \<and> \<not> snapshot_present mount"
    by (simp add: phase_of_def snapshot_present_def state_defs)
  moreover have
    "map_option phase_of (run [FetchSettles 0 (ok_response scenario_A), Tick] mount)
       = Some Loading
     \<and> map_option snapshot_present (run [FetchSettles 0 (ok_response scenario_A), Tick] mount)
       = Some True"
    by (simp add: state_defs sample_defs phase_of_def snapshot_present_def)
  ultimately show ?thesis
    by blast
qed

theorem ready_implies_snapshot_witness:
  "\<exists>s. run [FetchSettles 0 (ok_response scenario_A)] mount = Some s
       \<and> \<not> list_ex null_body [FetchSettles 0 (ok_response scenario_A)]
       \<and> phase_of s = Ready \<and> snapshot_present s"
proof -
  let ?evs = "[FetchSettles 0 (ok_response scenario_A)]"
  have "\<exists>s. run ?evs mount = Some s \<and> phase_of s = Ready"
    by (simp add: state_defs sample_defs phase_of_def)
  then obtain s where r: "run ?evs mount = Some s" and p: "phase_of s = Ready"
    by blast
  have n: "\<not> list_ex null_body ?evs"
    by (simp add: sample_defs)
  from ready_implies_snapshot [of ?evs s] r n p have "snapshot_present s"
    by blast
  with r n p show ?thesis
    by blast
qed

text \<open>
  The claim as stated fails on a response with status 200 whose body is the JSON value
  null: the first fetch stores null as the snapshot, clears the error and \<open>loading\<close>, and
  the phase is Ready with no snapshot.
\<close>

theorem null_body_ready_without_snapshot:
  "map_option phase_of (run [FetchSettles 0 (Response True (Json JNull))] mount) = Some Ready
   \<and> map_option snapshot_present (run [FetchSettles 0 (Response True (Json JNull))] mount)
        = Some False"
  by (simp add: state_defs phase_of_def snapshot_present_def)

end
